theory Spec2Isabelle
  imports Complex_Main
begin

section \<open>Numbers\<close>

text \<open>
  Prices, mids and every quantity derived from them are numpy \<open>float64\<close> scalars: the
  default strategy and \<open>Position.update_mids\<close> read them out of the chain table. On such
  operands no arithmetic operation raises: a division by zero gives an infinity or NaN.
  The type \<open>fl\<close> keeps these special values and computes exactly on the finite ones, so
  rounding, overflow and the sign of zero are not part of the model.
\<close>

datatype fl = Fin real | PInf | NInf | NaN

fun fneg :: "fl \<Rightarrow> fl" where
  "fneg (Fin a) = Fin (- a)"
| "fneg PInf = NInf"
| "fneg NInf = PInf"
| "fneg NaN = NaN"

fun fadd :: "fl \<Rightarrow> fl \<Rightarrow> fl" where
  "fadd (Fin a) (Fin b) = Fin (a + b)"
| "fadd NaN _ = NaN"
| "fadd _ NaN = NaN"
| "fadd PInf NInf = NaN"
| "fadd NInf PInf = NaN"
| "fadd PInf _ = PInf"
| "fadd _ PInf = PInf"
| "fadd NInf _ = NInf"
| "fadd _ NInf = NInf"

definition fsub :: "fl \<Rightarrow> fl \<Rightarrow> fl" where
  "fsub x y = fadd x (fneg y)"

text \<open>The infinity with the sign of a real number, NaN for zero.\<close>

definition signed_inf :: "real \<Rightarrow> fl" where
  "signed_inf a = (if 0 < a then PInf else if a < 0 then NInf else NaN)"

fun fmul :: "fl \<Rightarrow> fl \<Rightarrow> fl" where
  "fmul (Fin a) (Fin b) = Fin (a * b)"
| "fmul NaN _ = NaN"
| "fmul _ NaN = NaN"
| "fmul (Fin a) PInf = signed_inf a"
| "fmul (Fin a) NInf = signed_inf (- a)"
| "fmul PInf (Fin b) = signed_inf b"
| "fmul NInf (Fin b) = signed_inf (- b)"
| "fmul PInf PInf = PInf"
| "fmul NInf NInf = PInf"
| "fmul PInf NInf = NInf"
| "fmul NInf PInf = NInf"

text \<open>
  Division. Every divisor of the program that can be zero is the result of \<open>abs\<close>, a
  standard deviation or a running maximum, so a zero divisor is taken as \<open>+0.0\<close>.
\<close>

fun fdiv :: "fl \<Rightarrow> fl \<Rightarrow> fl" where
  "fdiv (Fin a) (Fin b) = (if b = 0 then signed_inf a else Fin (a / b))"
| "fdiv NaN _ = NaN"
| "fdiv _ NaN = NaN"
| "fdiv (Fin a) PInf = Fin 0"
| "fdiv (Fin a) NInf = Fin 0"
| "fdiv PInf (Fin b) = (if b < 0 then NInf else PInf)"
| "fdiv NInf (Fin b) = (if b < 0 then PInf else NInf)"
| "fdiv PInf PInf = NaN"
| "fdiv PInf NInf = NaN"
| "fdiv NInf PInf = NaN"
| "fdiv NInf NInf = NaN"

fun fabs :: "fl \<Rightarrow> fl" where
  "fabs (Fin a) = Fin \<bar>a\<bar>"
| "fabs PInf = PInf"
| "fabs NInf = PInf"
| "fabs NaN = NaN"

text \<open>Comparisons: every comparison with NaN is false.\<close>

fun flt :: "fl \<Rightarrow> fl \<Rightarrow> bool" where
  "flt (Fin a) (Fin b) = (a < b)"
| "flt NaN _ = False"
| "flt _ NaN = False"
| "flt _ NInf = False"
| "flt PInf _ = False"
| "flt NInf _ = True"
| "flt _ PInf = True"

fun fle :: "fl \<Rightarrow> fl \<Rightarrow> bool" where
  "fle (Fin a) (Fin b) = (a \<le> b)"
| "fle NaN _ = False"
| "fle _ NaN = False"
| "fle NInf _ = True"
| "fle _ PInf = True"
| "fle _ NInf = False"
| "fle PInf _ = False"

fun fsqrt :: "fl \<Rightarrow> fl" where
  "fsqrt (Fin a) = (if a < 0 then NaN else Fin (sqrt a))"
| "fsqrt PInf = PInf"
| "fsqrt NInf = NaN"
| "fsqrt NaN = NaN"

text \<open>Python's \<open>sum\<close>: a left fold of \<open>+\<close> that starts from the integer 0.\<close>

definition fsum :: "fl list \<Rightarrow> fl" where
  "fsum xs = foldl fadd (Fin 0) xs"

text \<open>
  Truth value of an optional float, as in \<open>x if self.exit_mid else y\<close>: \<open>None\<close> and
  \<open>0.0\<close> are false, everything else (NaN included) is true.
\<close>

fun truthy :: "fl option \<Rightarrow> bool" where
  "truthy None = False"
| "truthy (Some x) = (x \<noteq> Fin 0)"

datatype py_error = KeyError | IndexError | ZeroDivisionError | TypeError | ValueError | OverflowError

section \<open>Positions and their legs (strategies.py)\<close>

record option_position =
  strike :: real
  right :: string
  entry_price :: fl
  quantity :: int
  entry_mid :: fl
  exit_mid :: "fl option"

text \<open>\<open>OptionPosition.pnl\<close>\<close>

definition opt_pnl :: "option_position \<Rightarrow> fl" where
  "opt_pnl opt =
     (if truthy (exit_mid opt)
      then (case exit_mid opt of
              Some m \<Rightarrow> fmul (fsub m (entry_price opt)) (Fin (of_int (quantity opt)))
            | None \<Rightarrow> Fin 0)
      else Fin 0)"

record position =
  entry_time :: nat
  direction :: int
  options :: "option_position list"
  exit_time :: "nat option"

text \<open>\<open>Position.pnl\<close>\<close>

definition pnl :: "position \<Rightarrow> fl" where
  "pnl p = fsum (map opt_pnl (options p))"

text \<open>\<open>Position.entry_price()\<close>\<close>

definition position_entry_price :: "position \<Rightarrow> fl" where
  "position_entry_price p =
     fsum (map (\<lambda>opt. fmul (entry_price opt) (Fin (of_int (quantity opt)))) (options p))"

text \<open>
  \<open>Position.current_price()\<close>. The sum multiplies every leg's \<open>exit_mid\<close> by its
  quantity; a leg whose \<open>exit_mid\<close> is \<open>None\<close> makes that product raise \<open>TypeError\<close>.
\<close>

fun leg_values :: "option_position list \<Rightarrow> py_error + fl list" where
  "leg_values [] = Inr []"
| "leg_values (opt # opts) =
     (case exit_mid opt of
        None \<Rightarrow> Inl TypeError
      | Some m \<Rightarrow>
          (case leg_values opts of
             Inl e \<Rightarrow> Inl e
           | Inr vs \<Rightarrow> Inr (fmul m (Fin (of_int (quantity opt))) # vs)))"

definition current_price :: "position \<Rightarrow> py_error + fl" where
  "current_price p =
     (case options p of
        [] \<Rightarrow> Inr (Fin 0)
      | opt # _ \<Rightarrow>
          if truthy (exit_mid opt)
          then (case leg_values (options p) of Inl e \<Rightarrow> Inl e | Inr vs \<Rightarrow> Inr (fsum vs))
          else Inr (Fin 0))"

text \<open>
  The message \<open>update_mids\<close> logs is formatted eagerly. It divides \<open>self.pnl\<close> by
  \<open>self.entry_price()\<close>: for a position without legs both sums are the Python integer 0
  and the division raises; with a leg the divisor is a \<open>float64\<close> and nothing raises.
  It then formats \<open>current_price()\<close>.
\<close>

definition update_mids_log :: "position \<Rightarrow> py_error + unit" where
  "update_mids_log p =
     (if options p = [] then Inl ZeroDivisionError
      else (case current_price p of Inl e \<Rightarrow> Inl e | Inr _ \<Rightarrow> Inr ()))"

text \<open>\<open>Position.__str__\<close>, of which only the failure matters: it formats \<open>current_price()\<close>.\<close>

definition position_str :: "position \<Rightarrow> py_error + unit" where
  "position_str p = (case current_price p of Inl e \<Rightarrow> Inl e | Inr _ \<Rightarrow> Inr ())"

section \<open>Market data\<close>

text \<open>
  The chain table is indexed by (timestamp, strike); a row holds one cell per column
  \<open>(field, is_call)\<close>, NaN where the pivot has no quote. \<open>chains.loc[(time, strike)]\<close>
  raises \<open>KeyError\<close> when the row is absent. A row of the underlying series carries its
  timestamp as \<open>name\<close> and the price.
\<close>

type_synonym chain_row = "string \<times> bool \<Rightarrow> fl"

type_synonym chain_table = "nat \<times> real \<Rightarrow> chain_row option"

record index_row =
  name :: nat
  price :: fl

text \<open>
  \<open>Position.update_mids\<close>: the legs are refreshed in order, and the first missing row
  aborts the walk.
\<close>

fun update_legs :: "chain_table \<Rightarrow> nat \<Rightarrow> option_position list \<Rightarrow> py_error + option_position list" where
  "update_legs chns time [] = Inr []"
| "update_legs chns time (opt # opts) =
     (case chns (time, strike opt) of
        None \<Rightarrow> Inl KeyError
      | Some row \<Rightarrow>
          (case update_legs chns time opts of
             Inl e \<Rightarrow> Inl e
           | Inr opts' \<Rightarrow> Inr (opt\<lparr>exit_mid := Some (row (''mid'', right opt = ''C''))\<rparr> # opts')))"

definition update_mids :: "chain_table \<Rightarrow> nat \<Rightarrow> position \<Rightarrow> py_error + position" where
  "update_mids chns time p =
     (case update_legs chns time (options p) of
        Inl e \<Rightarrow> Inl e
      | Inr opts' \<Rightarrow>
          (case update_mids_log (p\<lparr>options := opts'\<rparr>) of
             Inl e \<Rightarrow> Inl e
           | Inr _ \<Rightarrow> Inr (p\<lparr>options := opts'\<rparr>)))"

section \<open>The default strategy (strategies.py)\<close>

text \<open>Python's \<open>round\<close> on a float: to the nearest integer, ties to the even one.\<close>

definition round_half_even :: "real \<Rightarrow> int" where
  "round_half_even x =
     (let f = \<lfloor>x\<rfloor>; d = x - of_int f
      in if d < 1 / 2 then f else if 1 / 2 < d then f + 1 else if even f then f else f + 1)"

fun py_round :: "fl \<Rightarrow> py_error + int" where
  "py_round (Fin x) = Inr (round_half_even x)"
| "py_round NaN = Inl ValueError"
| "py_round PInf = Inl OverflowError"
| "py_round NInf = Inl OverflowError"

text \<open>
  A strategy is the pair of its two decision methods; either may raise. The engine knows
  nothing else about it.
\<close>

record strategy =
  check_entry :: "index_row \<Rightarrow> chain_table \<Rightarrow> py_error + position option"
  check_exit :: "position \<Rightarrow> index_row \<Rightarrow> py_error + bool"

text \<open>
  \<open>Strategy.check_entry\<close>. The rounding is outside the \<open>try\<close> block; the two row
  lookups are inside it, so a missing row gives \<open>None\<close>. A row that exists has all its
  columns, so it is never \<open>empty\<close>.
\<close>

definition Strategy_check_entry :: "index_row \<Rightarrow> chain_table \<Rightarrow> py_error + position option" where
  "Strategy_check_entry index_quotes chns =
     (case py_round (fdiv (price index_quotes) (Fin 5)) of
        Inl e \<Rightarrow> Inl e
      | Inr k \<Rightarrow>
          (let atm = k * 5; call_strike = atm + 5; put_strike = atm - 5
           in case chns (name index_quotes, of_int call_strike) of
                None \<Rightarrow> Inr None
              | Some call_data \<Rightarrow>
                  (case chns (name index_quotes, of_int put_strike) of
                     None \<Rightarrow> Inr None
                   | Some put_data \<Rightarrow>
                       (let call_bid = call_data (''bid'', True);
                            call_mid = call_data (''mid'', True);
                            put_bid = put_data (''bid'', False);
                            put_mid = put_data (''mid'', False)
                        in if \<not> list_all (\<lambda>p. flt (Fin 0) p) [call_bid, call_mid, put_bid, put_mid]
                           then Inr None
                           else if flt put_mid call_mid
                           then Inr (Some \<lparr>entry_time = name index_quotes, direction = 1,
                                  options =
                                    [\<lparr>strike = of_int call_strike, right = ''C'',
                                      entry_price = call_bid, quantity = 1,
                                      entry_mid = call_mid, exit_mid = None\<rparr>,
                                     \<lparr>strike = of_int put_strike, right = ''P'',
                                      entry_price = put_bid, quantity = 1,
                                      entry_mid = put_mid, exit_mid = None\<rparr>],
                                  exit_time = None\<rparr>)
                           else Inr None))))"

text \<open>
  \<open>Strategy.check_exit\<close>. Without legs both \<open>position.pnl\<close> and \<open>initial_value\<close> are the
  Python integer 0 and the division raises; with a leg \<open>initial_value\<close> is a \<open>float64\<close>.
\<close>

definition Strategy_check_exit :: "fl \<Rightarrow> fl \<Rightarrow> position \<Rightarrow> index_row \<Rightarrow> py_error + bool" where
  "Strategy_check_exit profit_pct loss_pct position index_quotes =
     (if options position = [] then Inl ZeroDivisionError
      else
        (let initial_value =
               fabs (fsum (map (\<lambda>opt. fmul (entry_price opt) (Fin (of_int (quantity opt))))
                            (options position)));
             pnl_pct = fdiv (pnl position) initial_value
         in Inr (fle profit_pct pnl_pct \<or> fle pnl_pct loss_pct)))"

definition Strategy :: "fl \<Rightarrow> fl \<Rightarrow> strategy" where
  "Strategy profit_pct loss_pct =
     \<lparr>check_entry = Strategy_check_entry,
      check_exit = Strategy_check_exit profit_pct loss_pct\<rparr>"

section \<open>The simulation engine (backtest.py)\<close>

record backtest =
  positions :: "position list"
  current_position :: "position option"

definition init_backtest :: backtest where
  "init_backtest = \<lparr>positions = [], current_position = None\<rparr>"

text \<open>
  Each call of a strategy method is recorded with the value the engine's
  \<open>current_position\<close> field holds at that instant.
\<close>

datatype call = CheckEntry "position option" | CheckExit "position option"

text \<open>\<open>Backtest._validate_interval\<close>\<close>

definition validate_interval :: "nat \<Rightarrow> index_row \<Rightarrow> chain_table \<Rightarrow> py_error + bool" where
  "validate_interval time index chns =
     (if \<not> flt (Fin 0) (price index) then Inr False
      else
        (case py_round (fdiv (price index) (Fin 5)) of
           Inl e \<Rightarrow> Inl e
         | Inr k \<Rightarrow>
             (let atm = k * 5
              in case chns (time, of_int atm) of
                   None \<Rightarrow> Inr False
                 | Some atm_data \<Rightarrow>
                     if \<not> (flt (Fin 0) (atm_data (''mid'', True))
                            \<and> flt (Fin 0) (atm_data (''mid'', False)))
                     then Inr False
                     else Inr True)))"

text \<open>
  The body of the loop of \<open>Backtest.run\<close>, in its two halves. Each returns the strategy
  calls it made and either the exception that left the loop or the engine afterwards.
  First the open position: revalue it, ask the strategy, close it. \<open>update_mids\<close>
  mutates the position in place, so the engine holds the revalued position from then on.
  The position enters the list of closed positions when the engine lets go of it; the
  list therefore holds values that no longer change during the run.
\<close>

definition exit_phase :: "strategy \<Rightarrow> chain_table \<Rightarrow> backtest \<Rightarrow> nat \<Rightarrow> index_row
    \<Rightarrow> call list \<times> (py_error + backtest)" where
  "exit_phase strat chns s time index =
     (case current_position s of
        None \<Rightarrow> ([], Inr s)
      | Some p \<Rightarrow>
          (case update_mids chns time p of
             Inl e \<Rightarrow> ([], Inl e)
           | Inr p' \<Rightarrow>
               (let s' = s\<lparr>current_position := Some p'\<rparr>
                in case check_exit strat p' index of
                     Inl e \<Rightarrow> ([CheckExit (current_position s')], Inl e)
                   | Inr leave \<Rightarrow>
                       ([CheckExit (current_position s')],
                        Inr (if leave
                             then s'\<lparr>positions := positions s' @ [p'\<lparr>exit_time := Some time\<rparr>],
                                     current_position := None\<rparr>
                             else s')))))"

text \<open>
  Then the entry, when no position is open (any more). The message logged for a new
  position formats it with \<open>Position.__str__\<close>, which can raise.
\<close>

definition entry_phase :: "strategy \<Rightarrow> chain_table \<Rightarrow> backtest \<Rightarrow> index_row
    \<Rightarrow> call list \<times> (py_error + backtest)" where
  "entry_phase strat chns s index =
     (case current_position s of
        Some _ \<Rightarrow> ([], Inr s)
      | None \<Rightarrow>
          (case check_entry strat index chns of
             Inl e \<Rightarrow> ([CheckEntry (current_position s)], Inl e)
           | Inr None \<Rightarrow> ([CheckEntry (current_position s)], Inr s)
           | Inr (Some position) \<Rightarrow>
               (case position_str position of
                  Inl e \<Rightarrow> ([CheckEntry (current_position s)], Inl e)
                | Inr _ \<Rightarrow>
                    ([CheckEntry (current_position s)],
                     Inr (s\<lparr>current_position := Some position\<rparr>)))))"

definition step :: "strategy \<Rightarrow> chain_table \<Rightarrow> backtest \<Rightarrow> index_row
    \<Rightarrow> call list \<times> (py_error + backtest)" where
  "step strat chns s index =
     (case validate_interval (name index) index chns of
        Inl e \<Rightarrow> ([], Inl e)
      | Inr False \<Rightarrow> ([], Inr s)
      | Inr True \<Rightarrow>
          (case exit_phase strat chns s (name index) index of
             (cs, Inl e) \<Rightarrow> (cs, Inl e)
           | (cs, Inr s') \<Rightarrow>
               (case entry_phase strat chns s' index of
                  (cs', r) \<Rightarrow> (cs @ cs', r))))"

text \<open>The loop over the rows of the underlying series.\<close>

fun run_loop :: "strategy \<Rightarrow> chain_table \<Rightarrow> backtest \<Rightarrow> index_row list
    \<Rightarrow> call list \<times> (py_error + backtest)" where
  "run_loop strat chns s [] = ([], Inr s)"
| "run_loop strat chns s (index # rest) =
     (case step strat chns s index of
        (cs, Inl e) \<Rightarrow> (cs, Inl e)
      | (cs, Inr s') \<Rightarrow>
          (case run_loop strat chns s' rest of
             (cs', r) \<Rightarrow> (cs @ cs', r)))"

text \<open>
  After the loop: a position that is still open is revalued at the last timestamp of the
  series, stamped and appended. \<open>self.underlying.index[-1]\<close> raises on an empty series.
  The field \<open>current_position\<close> keeps the (updated) position.
\<close>

definition close_open :: "chain_table \<Rightarrow> index_row list \<Rightarrow> backtest \<Rightarrow> py_error + backtest" where
  "close_open chns underlying s =
     (case current_position s of
        None \<Rightarrow> Inr s
      | Some p \<Rightarrow>
          (if underlying = [] then Inl IndexError
           else
             (let last_time = name (last underlying)
              in case update_mids chns last_time p of
                   Inl e \<Rightarrow> Inl e
                 | Inr p' \<Rightarrow>
                     Inr (s\<lparr>positions := positions s @ [p'\<lparr>exit_time := Some last_time\<rparr>],
                            current_position := Some (p'\<lparr>exit_time := Some last_time\<rparr>)\<rparr>))))"

section \<open>Metrics (backtest.py)\<close>

record metrics =
  total_pnl :: fl
  win_rate :: fl
  num_positions :: nat
  mar :: fl
  sortino :: fl
  return_pct :: fl
  profit_factor :: fl

text \<open>
  The per-trade returns \<open>p.pnl / abs(p.entry_price())\<close>. For a position without legs the
  two operands are Python integers 0 and the division raises.
\<close>

fun trade_returns :: "position list \<Rightarrow> py_error + fl list" where
  "trade_returns [] = Inr []"
| "trade_returns (p # ps) =
     (if options p = [] then Inl ZeroDivisionError
      else
        (case trade_returns ps of
           Inl e \<Rightarrow> Inl e
         | Inr rs \<Rightarrow> Inr (fdiv (pnl p) (fabs (position_entry_price p)) # rs)))"

text \<open>
  The pandas operations on a series of floats. \<open>cumprod\<close> skips NaN entries (they stay
  NaN in the result and do not enter the product); \<open>expanding().max()\<close> is the maximum of
  the entries so far that are not NaN; \<open>min()\<close> ignores NaN; \<open>std()\<close> is the sample
  standard deviation (\<open>ddof=1\<close>) of the entries that are not NaN, and NaN when there are
  fewer than two of them.
\<close>

fun cumprod_from :: "fl \<Rightarrow> fl list \<Rightarrow> fl list" where
  "cumprod_from acc [] = []"
| "cumprod_from acc (x # xs) =
     (if x = NaN then NaN # cumprod_from acc xs
      else fmul acc x # cumprod_from (fmul acc x) xs)"

definition cumprod :: "fl list \<Rightarrow> fl list" where
  "cumprod xs = cumprod_from (Fin 1) xs"

definition fmax :: "fl \<Rightarrow> fl \<Rightarrow> fl" where
  "fmax a b = (if flt a b then b else a)"

definition fmin :: "fl \<Rightarrow> fl \<Rightarrow> fl" where
  "fmin a b = (if flt b a then b else a)"

fun expanding_max_from :: "fl option \<Rightarrow> fl list \<Rightarrow> fl list" where
  "expanding_max_from best [] = []"
| "expanding_max_from best (x # xs) =
     (let best' = (if x = NaN then best
                   else (case best of None \<Rightarrow> Some x | Some b \<Rightarrow> Some (fmax b x)))
      in (case best' of None \<Rightarrow> NaN | Some b \<Rightarrow> b) # expanding_max_from best' xs)"

definition expanding_max :: "fl list \<Rightarrow> fl list" where
  "expanding_max xs = expanding_max_from None xs"

definition series_min :: "fl list \<Rightarrow> fl" where
  "series_min xs =
     (case filter (\<lambda>x. x \<noteq> NaN) xs of
        [] \<Rightarrow> NaN
      | v # vs \<Rightarrow> foldl fmin v vs)"

definition series_std :: "fl list \<Rightarrow> fl" where
  "series_std xs =
     (let vals = filter (\<lambda>x. x \<noteq> NaN) xs; n = length vals
      in if n \<le> 1 then NaN
         else
           (let avg = fdiv (fsum vals) (Fin (real n));
                sqr = map (\<lambda>v. fmul (fsub avg v) (fsub avg v)) vals
            in fsqrt (fdiv (fsum sqr) (Fin (real (n - 1))))))"

text \<open>The three steps of the Sortino ratio, lines 98 to 100.\<close>

definition downside_returns :: "fl list \<Rightarrow> fl list" where
  "downside_returns returns = filter (\<lambda>r. flt r (Fin 0)) returns"

definition downside_std :: "fl list \<Rightarrow> fl" where
  "downside_std returns =
     (if length (downside_returns returns) > 0 then series_std (downside_returns returns)
      else Fin 0)"

definition sortino_ratio :: "fl \<Rightarrow> fl \<Rightarrow> fl" where
  "sortino_ratio total_return dstd =
     (if dstd \<noteq> Fin 0 then fdiv total_return dstd else total_return)"

definition total_return :: "position list \<Rightarrow> fl" where
  "total_return ps =
     fdiv (fsum (map pnl ps)) (fsum (map (\<lambda>p. fabs (position_entry_price p)) ps))"

definition max_drawdown :: "fl list \<Rightarrow> fl" where
  "max_drawdown returns =
     (let cumulative_returns = cumprod (map (fadd (Fin 1)) returns);
          rolling_max = expanding_max cumulative_returns;
          drawdowns = map2 (\<lambda>c m. fsub (fdiv c m) (Fin 1)) cumulative_returns rolling_max
      in fabs (series_min drawdowns))"

text \<open>\<open>Backtest._calculate_metrics\<close>\<close>

definition calculate_metrics :: "position list \<Rightarrow> py_error + metrics" where
  "calculate_metrics ps =
     (if ps = []
      then Inr \<lparr>total_pnl = Fin 0, win_rate = Fin 0, num_positions = 0, mar = Fin 0,
                sortino = Fin 0, return_pct = Fin 0, profit_factor = Fin 0\<rparr>
      else
        (let wins = length (filter (\<lambda>p. flt (Fin 0) (pnl p)) ps)
         in case trade_returns ps of
              Inl e \<Rightarrow> Inl e
            | Inr returns \<Rightarrow>
                (let gross_profit = fsum (map pnl (filter (\<lambda>p. flt (Fin 0) (pnl p)) ps));
                     gross_loss = fabs (fsum (map pnl (filter (\<lambda>p. flt (pnl p) (Fin 0)) ps)))
                 in Inr \<lparr>total_pnl = fsum (map pnl ps),
                          win_rate = Fin (real wins / real (length ps)),
                          num_positions = length ps,
                          mar = (if max_drawdown returns \<noteq> Fin 0
                                 then fdiv (total_return ps) (max_drawdown returns)
                                 else total_return ps),
                          sortino = sortino_ratio (total_return ps) (downside_std returns),
                          return_pct = fmul (total_return ps) (Fin 100),
                          profit_factor = (if gross_loss \<noteq> Fin 0
                                           then fdiv gross_profit gross_loss else PInf)\<rparr>)))"

text \<open>
  \<open>Backtest.run\<close>: the loop, the closing of a position left open, the metrics of the
  closed positions. An exception anywhere leaves no metrics.
\<close>

definition run :: "strategy \<Rightarrow> chain_table \<Rightarrow> index_row list \<Rightarrow> backtest
    \<Rightarrow> call list \<times> (py_error + metrics)" where
  "run strat chns underlying s =
     (case run_loop strat chns s underlying of
        (cs, Inl e) \<Rightarrow> (cs, Inl e)
      | (cs, Inr s') \<Rightarrow>
          (case close_open chns underlying s' of
             Inl e \<Rightarrow> (cs, Inl e)
           | Inr s'' \<Rightarrow> (cs, calculate_metrics (positions s''))))"

section \<open>Notions used in the statements\<close>

text \<open>
  The specification defines the entry notional of a position as the sum over its legs of
  \<open>|entry_price * quantity|\<close>. The definition below follows those words; the code
  takes \<open>abs\<close> of \<open>position_entry_price\<close> instead, the absolute value of the sum.
\<close>

definition entry_notional_spec :: "position \<Rightarrow> fl" where
  "entry_notional_spec p =
     fsum (map (\<lambda>opt. fabs (fmul (entry_price opt) (Fin (of_int (quantity opt))))) (options p))"

text \<open>
  On finite prices the float operations are the real ones. A leg is finite when its entry
  price and its mark, if it has one, are finite numbers; its profit and the net premium of
  a position are then the real numbers below.
\<close>

fun is_fin :: "fl \<Rightarrow> bool" where
  "is_fin (Fin a) = True"
| "is_fin PInf = False"
| "is_fin NInf = False"
| "is_fin NaN = False"

fun real_of :: "fl \<Rightarrow> real" where
  "real_of (Fin a) = a"
| "real_of PInf = 0"
| "real_of NInf = 0"
| "real_of NaN = 0"

definition finite_leg :: "option_position \<Rightarrow> bool" where
  "finite_leg opt =
     (is_fin (entry_price opt) \<and> (case exit_mid opt of None \<Rightarrow> True | Some m \<Rightarrow> is_fin m))"

definition leg_pnl_r :: "option_position \<Rightarrow> real" where
  "leg_pnl_r opt =
     (case exit_mid opt of
        None \<Rightarrow> 0
      | Some m \<Rightarrow>
          if real_of m = 0 then 0
          else (real_of m - real_of (entry_price opt)) * of_int (quantity opt))"

definition pnl_r :: "position \<Rightarrow> real" where
  "pnl_r p = (\<Sum>opt\<leftarrow>options p. leg_pnl_r opt)"

definition net_premium_r :: "position \<Rightarrow> real" where
  "net_premium_r p = (\<Sum>opt\<leftarrow>options p. real_of (entry_price opt) * of_int (quantity opt))"

text \<open>
  A strategy call respects the engine's state machine when \<open>check_entry\<close> finds no
  position open and \<open>check_exit\<close> finds one.
\<close>

fun call_ok :: "call \<Rightarrow> bool" where
  "call_ok (CheckEntry cur) = (cur = None)"
| "call_ok (CheckExit cur) = (cur \<noteq> None)"

text \<open>
  The at-the-money strike \<open>round(price / 5) * 5\<close>, and the three ways in which an interval
  fails validation: a price that is not positive, no chain row at the at-the-money strike,
  a call or put mid there that is not positive.
\<close>

definition atm_strike :: "real \<Rightarrow> real" where
  "atm_strike x = of_int (round_half_even (x / 5) * 5)"

definition validation_fails :: "index_row \<Rightarrow> chain_table \<Rightarrow> bool" where
  "validation_fails index chns =
     (case price index of
        Fin x \<Rightarrow>
          x \<le> 0
          \<or> (case chns (name index, atm_strike x) of
                None \<Rightarrow> True
              | Some atm_data \<Rightarrow>
                  \<not> flt (Fin 0) (atm_data (''mid'', True))
                  \<or> \<not> flt (Fin 0) (atm_data (''mid'', False)))
      | PInf \<Rightarrow> False
      | NInf \<Rightarrow> True
      | NaN \<Rightarrow> True)"


section \<open>A small session\<close>

text \<open>
  Three seconds of a session, timestamps in seconds since midnight. The underlying stays
  near 5900, so the at-the-money strike is 5900 and the default strategy trades the 5905
  call and the 5895 put. The call's mid moves from 2.0 to 2.2 to 3.6.
\<close>

definition quotes :: "real \<Rightarrow> real \<Rightarrow> real \<Rightarrow> real \<Rightarrow> chain_row" where
  "quotes call_bid call_mid put_bid put_mid =
     (\<lambda>(field, is_call).
        if field = ''bid'' then Fin (if is_call then call_bid else put_bid)
        else if field = ''mid'' then Fin (if is_call then call_mid else put_mid)
        else Fin (if is_call then 2 * call_mid - call_bid else 2 * put_mid - put_bid))"

definition session_chain :: chain_table where
  "session_chain =
     map_of
       [((34201, 5895), quotes 6.9 7.0 1.7 1.8), ((34201, 5900), quotes 3.9 4.0 3.7 3.8),
        ((34201, 5905), quotes 1.9 2.0 6.5 6.6),
        ((34202, 5895), quotes 6.9 7.0 1.7 1.8), ((34202, 5900), quotes 3.9 4.0 3.7 3.8),
        ((34202, 5905), quotes 2.1 2.2 6.5 6.6),
        ((34203, 5895), quotes 6.9 7.0 1.7 1.8), ((34203, 5900), quotes 4.9 5.0 3.7 3.8),
        ((34203, 5905), quotes 3.5 3.6 6.5 6.6)]"

definition tick :: "nat \<Rightarrow> real \<Rightarrow> index_row" where
  "tick t x = \<lparr>name = t, price = Fin x\<rparr>"

definition session_underlying :: "index_row list" where
  "session_underlying = [tick 34201 5900, tick 34202 5901, tick 34203 5902.5]"

definition mk_leg :: "real \<Rightarrow> string \<Rightarrow> real \<Rightarrow> int \<Rightarrow> real \<Rightarrow> fl option \<Rightarrow> option_position" where
  "mk_leg k r e q m x =
     \<lparr>strike = k, right = r, entry_price = Fin e, quantity = q, entry_mid = Fin m, exit_mid = x\<rparr>"

text \<open>The two positions the default strategy opens in the session, with their marks.\<close>

definition first_trade :: "fl option \<Rightarrow> fl option \<Rightarrow> nat option \<Rightarrow> position" where
  "first_trade call_mark put_mark closed_at =
     \<lparr>entry_time = 34201, direction = 1,
      options = [mk_leg 5905 ''C'' 1.9 1 2.0 call_mark, mk_leg 5895 ''P'' 1.7 1 1.8 put_mark],
      exit_time = closed_at\<rparr>"

definition second_trade :: "fl option \<Rightarrow> fl option \<Rightarrow> nat option \<Rightarrow> position" where
  "second_trade call_mark put_mark closed_at =
     \<lparr>entry_time = 34203, direction = 1,
      options = [mk_leg 5905 ''C'' 3.5 1 3.6 call_mark, mk_leg 5895 ''P'' 1.7 1 1.8 put_mark],
      exit_time = closed_at\<rparr>"

text \<open>
  A put spread as the example strategy of the repository builds it: one put sold at 2,
  one bought at 1, marked at 1.5 and 1. And a single call bought at 2 and marked at 1.
\<close>

definition put_spread :: "nat option \<Rightarrow> position" where
  "put_spread closed_at =
     \<lparr>entry_time = 34201, direction = - 1,
      options = [mk_leg 5895 ''P'' 2 (- 1) 2.1 (Some (Fin 1.5)),
                 mk_leg 5890 ''P'' 1 1 1.1 (Some (Fin 1))],
      exit_time = closed_at\<rparr>"

definition single_loss :: position where
  "single_loss =
     \<lparr>entry_time = 34201, direction = 1,
      options = [mk_leg 5905 ''C'' 2 1 2.1 (Some (Fin 1))],
      exit_time = Some 34203\<rparr>"

section \<open>Sums of finite floats\<close>

lemma foldl_fadd_Fin: "foldl fadd (Fin a) (map Fin xs) = Fin (a + sum_list xs)"
  by (induction xs arbitrary: a) (simp_all add: add.assoc)

lemma fsum_Fin: "fsum (map Fin xs) = Fin (sum_list xs)"
  by (simp add: fsum_def foldl_fadd_Fin)

lemma fdiv_NaN_right: "fdiv x NaN = NaN"
  by (cases x) simp_all

lemma opt_pnl_finite: "finite_leg opt \<Longrightarrow> opt_pnl opt = Fin (leg_pnl_r opt)"
proof (cases "exit_mid opt")
  case None
  then show ?thesis by (simp add: opt_pnl_def leg_pnl_r_def)
next
  case (Some m)
  assume "finite_leg opt"
  with Some obtain e x where "entry_price opt = Fin e" "m = Fin x"
    by (cases "entry_price opt"; cases m) (simp_all add: finite_leg_def)
  with Some show ?thesis by (simp add: opt_pnl_def leg_pnl_r_def fsub_def)
qed

lemma pnl_finite:
  assumes "list_all finite_leg (options p)"
  shows "pnl p = Fin (pnl_r p)"
proof -
  have "map opt_pnl (options p) = map Fin (map leg_pnl_r (options p))"
    using assms by (simp add: list_all_iff opt_pnl_finite)
  then show ?thesis by (simp only: pnl_def pnl_r_def fsum_Fin)
qed

lemma entry_value_finite:
  "finite_leg opt \<Longrightarrow>
     fmul (entry_price opt) (Fin (of_int (quantity opt)))
       = Fin (real_of (entry_price opt) * of_int (quantity opt))"
  by (cases "entry_price opt") (simp_all add: finite_leg_def)

lemma entry_sum_finite:
  assumes "list_all finite_leg (options p)"
  shows "fsum (map (\<lambda>opt. fmul (entry_price opt) (Fin (of_int (quantity opt)))) (options p))
           = Fin (net_premium_r p)"
proof -
  have "map (\<lambda>opt. fmul (entry_price opt) (Fin (of_int (quantity opt)))) (options p)
          = map Fin (map (\<lambda>opt. real_of (entry_price opt) * of_int (quantity opt)) (options p))"
    using assms by (simp add: list_all_iff entry_value_finite)
  then show ?thesis by (simp only: net_premium_r_def fsum_Fin)
qed

lemma position_entry_price_finite:
  "list_all finite_leg (options p) \<Longrightarrow> position_entry_price p = Fin (net_premium_r p)"
  by (simp add: position_entry_price_def entry_sum_finite)

section \<open>The session, step by step\<close>

lemmas session_defs =
  session_chain_def quotes_def tick_def mk_leg_def first_trade_def second_trade_def

lemmas engine_defs =
  step_def validate_interval_def round_half_even_def exit_phase_def entry_phase_def
  Strategy_def Strategy_check_entry_def Strategy_check_exit_def position_str_def
  current_price_def update_mids_def update_mids_log_def pnl_def opt_pnl_def fsum_def fsub_def

lemma session_step1:
  "step (Strategy (Fin (1 / 2)) (Fin (- 1))) session_chain init_backtest (tick 34201 5900)
     = ([CheckEntry None],
        Inr \<lparr>positions = [], current_position = Some (first_trade None None None)\<rparr>)"
  by (simp add: engine_defs session_defs init_backtest_def)

lemma session_step2:
  "step (Strategy (Fin (1 / 2)) (Fin (- 1))) session_chain
        \<lparr>positions = [], current_position = Some (first_trade None None None)\<rparr>
        (tick 34202 5901)
     = ([CheckExit (Some (first_trade (Some (Fin (11 / 5))) (Some (Fin (9 / 5))) None))],
        Inr \<lparr>positions = [],
             current_position = Some (first_trade (Some (Fin (11 / 5))) (Some (Fin (9 / 5))) None)\<rparr>)"
  by (simp add: engine_defs session_defs)

lemma session_step3:
  "step (Strategy (Fin (1 / 2)) (Fin (- 1))) session_chain
        \<lparr>positions = [],
          current_position = Some (first_trade (Some (Fin (11 / 5))) (Some (Fin (9 / 5))) None)\<rparr>
        (tick 34203 (11805 / 2))
     = ([CheckExit (Some (first_trade (Some (Fin (18 / 5))) (Some (Fin (9 / 5))) None)),
         CheckEntry None],
        Inr \<lparr>positions = [first_trade (Some (Fin (18 / 5))) (Some (Fin (9 / 5))) (Some 34203)],
             current_position = Some (second_trade None None None)\<rparr>)"
  by (simp add: engine_defs session_defs)

lemma session_loop:
  "run_loop (Strategy (Fin (1 / 2)) (Fin (- 1))) session_chain init_backtest session_underlying
     = ([CheckEntry None,
         CheckExit (Some (first_trade (Some (Fin (11 / 5))) (Some (Fin (9 / 5))) None)),
         CheckExit (Some (first_trade (Some (Fin (18 / 5))) (Some (Fin (9 / 5))) None)),
         CheckEntry None],
        Inr \<lparr>positions = [first_trade (Some (Fin (18 / 5))) (Some (Fin (9 / 5))) (Some 34203)],
             current_position = Some (second_trade None None None)\<rparr>)"
  by (simp add: session_underlying_def session_step1 session_step2 session_step3)


lemma session_revalue_first:
  "update_mids session_chain 34202 (first_trade None None None)
     = Inr (first_trade (Some (Fin (11 / 5))) (Some (Fin (9 / 5))) None)
   \<and> update_mids session_chain 34203 (first_trade (Some (Fin (11 / 5))) (Some (Fin (9 / 5))) None)
     = Inr (first_trade (Some (Fin (18 / 5))) (Some (Fin (9 / 5))) None)"
  by (simp add: engine_defs session_defs)


lemma session_valid:
  "validate_interval 34202 (tick 34202 5901) session_chain = Inr True
   \<and> validate_interval 34203 (tick 34203 (11805 / 2)) session_chain = Inr True"
  by (simp add: validate_interval_def round_half_even_def session_defs)

section \<open>Leg profit and loss\<close>

text \<open>
  C7, as the code has it: the profit of a leg is \<open>(exit_mid - entry_price) * quantity\<close>
  when \<open>exit_mid\<close> is set to a value other than zero, and 0 when \<open>exit_mid\<close> is unset or
  is zero.
\<close>

theorem opt_pnl_formula:
  "(exit_mid opt = Some (Fin m) \<and> m \<noteq> 0 \<and> entry_price opt = Fin e
      \<longrightarrow> opt_pnl opt = Fin ((m - e) * of_int (quantity opt)))
   \<and> (exit_mid opt = Some m' \<and> m' \<noteq> Fin 0
      \<longrightarrow> opt_pnl opt = fmul (fsub m' (entry_price opt)) (Fin (of_int (quantity opt))))
   \<and> (exit_mid opt = None \<or> exit_mid opt = Some (Fin 0) \<longrightarrow> opt_pnl opt = Fin 0)"
  by (auto simp: opt_pnl_def fsub_def)

theorem opt_pnl_formula_witness:
  "opt_pnl \<lparr>strike = 5905, right = ''C'', entry_price = Fin 2, quantity = 3,
            entry_mid = Fin 2, exit_mid = Some (Fin 5)\<rparr> = Fin 9
   \<and> opt_pnl \<lparr>strike = 5905, right = ''C'', entry_price = Fin 2, quantity = 3,
            entry_mid = Fin 2, exit_mid = Some PInf\<rparr> = PInf
   \<and> opt_pnl \<lparr>strike = 5905, right = ''C'', entry_price = Fin 2, quantity = 3,
            entry_mid = Fin 2, exit_mid = None\<rparr> = Fin 0"
  using opt_pnl_formula [of "\<lparr>strike = 5905, right = ''C'', entry_price = Fin 2, quantity = 3,
            entry_mid = Fin 2, exit_mid = Some (Fin 5)\<rparr>" 5 2 NaN]
    opt_pnl_formula [of "\<lparr>strike = 5905, right = ''C'', entry_price = Fin 2, quantity = 3,
            entry_mid = Fin 2, exit_mid = Some PInf\<rparr>" 0 0 PInf]
    opt_pnl_formula [of "\<lparr>strike = 5905, right = ''C'', entry_price = Fin 2, quantity = 3,
            entry_mid = Fin 2, exit_mid = None\<rparr>" 0 0 NaN]
  by (simp add: fsub_def signed_inf_def)

text \<open>
  C7 as stated fails when \<open>exit_mid\<close> has been set to 0.0: the leg bought at 2 and marked
  at 0 reports a profit of 0, not \<open>(0 - 2) * 1 = -2\<close>.
\<close>

theorem opt_pnl_zero_mid_counterexample:
  "opt_pnl \<lparr>strike = 5905, right = ''C'', entry_price = Fin 2, quantity = 1,
            entry_mid = Fin 2, exit_mid = Some (Fin 0)\<rparr> = Fin 0
   \<and> fmul (fsub (Fin 0) (Fin 2)) (Fin (of_int 1)) = Fin (- 2)
   \<and> opt_pnl \<lparr>strike = 5905, right = ''C'', entry_price = Fin 2, quantity = 1,
            entry_mid = Fin 2, exit_mid = Some (Fin 0)\<rparr>
       \<noteq> fmul (fsub (Fin 0) (Fin 2)) (Fin (of_int 1))"
  by (simp add: opt_pnl_def fsub_def)

section \<open>Current price of a position\<close>

text \<open>
  C10: when the first leg's \<open>exit_mid\<close> is \<open>None\<close> or 0.0, \<open>current_price\<close> returns 0
  whatever the other legs hold; it neither reads them nor raises.
\<close>

theorem current_price_first_leg:
  "options p = opt # rest \<Longrightarrow> exit_mid opt = None \<or> exit_mid opt = Some (Fin 0)
     \<Longrightarrow> current_price p = Inr (Fin 0)"
  by (auto simp: current_price_def)

theorem current_price_first_leg_witness:
  "current_price \<lparr>entry_time = 1, direction = 1,
       options = [\<lparr>strike = 5905, right = ''C'', entry_price = Fin 2, quantity = 1,
                    entry_mid = Fin 2, exit_mid = Some (Fin 0)\<rparr>,
                  \<lparr>strike = 5895, right = ''P'', entry_price = Fin 1, quantity = 1,
                    entry_mid = Fin 1, exit_mid = Some (Fin 7)\<rparr>],
       exit_time = None\<rparr> = Inr (Fin 0)"
  using current_price_first_leg [of "\<lparr>entry_time = 1, direction = 1,
       options = [\<lparr>strike = 5905, right = ''C'', entry_price = Fin 2, quantity = 1,
                    entry_mid = Fin 2, exit_mid = Some (Fin 0)\<rparr>,
                  \<lparr>strike = 5895, right = ''P'', entry_price = Fin 1, quantity = 1,
                    entry_mid = Fin 1, exit_mid = Some (Fin 7)\<rparr>],
       exit_time = None\<rparr>"
      "\<lparr>strike = 5905, right = ''C'', entry_price = Fin 2, quantity = 1,
                    entry_mid = Fin 2, exit_mid = Some (Fin 0)\<rparr>"
      "[\<lparr>strike = 5895, right = ''P'', entry_price = Fin 1, quantity = 1,
                    entry_mid = Fin 1, exit_mid = Some (Fin 7)\<rparr>]"]
  by simp

section \<open>The order of strategy calls\<close>

lemma exit_phase_calls: "list_all call_ok (fst (exit_phase strat chns s time index))"
  by (simp add: exit_phase_def Let_def split: option.split sum.split)

lemma entry_phase_calls: "list_all call_ok (fst (entry_phase strat chns s index))"
  by (simp add: entry_phase_def split: option.split sum.split)

lemma step_calls: "list_all call_ok (fst (step strat chns s index))"
proof (cases "validate_interval (name index) index chns")
  case (Inl e)
  then show ?thesis by (simp add: step_def)
next
  case (Inr ok)
  show ?thesis
  proof (cases ok)
    case False
    with Inr show ?thesis by (simp add: step_def)
  next
    case True
    obtain cs r where ex: "exit_phase strat chns s (name index) index = (cs, r)"
      by (cases "exit_phase strat chns s (name index) index")
    have cs: "list_all call_ok cs"
      using exit_phase_calls [of strat chns s "name index" index] ex by simp
    show ?thesis
    proof (cases r)
      case (Inl e)
      with Inr True ex cs show ?thesis by (simp add: step_def)
    next
      case (Inr s')
      obtain cs' r' where en: "entry_phase strat chns s' index = (cs', r')"
        by (cases "entry_phase strat chns s' index")
      have "list_all call_ok cs'"
        using entry_phase_calls [of strat chns s' index] en by simp
      with \<open>validate_interval (name index) index chns = Inr ok\<close> True ex cs Inr en
      show ?thesis by (simp add: step_def)
    qed
  qed
qed

lemma run_loop_calls: "list_all call_ok (fst (run_loop strat chns s underlying))"
proof (induction underlying arbitrary: s)
  case Nil
  show ?case by simp
next
  case (Cons index rest)
  obtain cs r where st: "step strat chns s index = (cs, r)"
    by (cases "step strat chns s index")
  have cs: "list_all call_ok cs"
    using step_calls [of strat chns s index] st by simp
  show ?case
  proof (cases r)
    case (Inl e)
    with st cs show ?thesis by simp
  next
    case (Inr s')
    obtain cs' r' where rl: "run_loop strat chns s' rest = (cs', r')"
      by (cases "run_loop strat chns s' rest")
    have "list_all call_ok cs'"
      using Cons.IH [of s'] rl by simp
    with st cs Inr rl show ?thesis by simp
  qed
qed

lemma run_calls_eq: "fst (run strat chns underlying s) = fst (run_loop strat chns s underlying)"
  by (simp add: run_def split: prod.split sum.split)

text \<open>
  C1: in every run, from any engine state, with any strategy and whether or not the run
  ends in an exception, every call of \<open>check_entry\<close> happens while the engine holds no
  open position and every call of \<open>check_exit\<close> while it holds one.
\<close>

theorem engine_call_discipline:
  "list_all call_ok (fst (run strat chns underlying s))"
  by (simp add: run_calls_eq run_loop_calls)

theorem engine_call_discipline_witness:
  "fst (run (Strategy (Fin (1 / 2)) (Fin (- 1))) session_chain session_underlying init_backtest)
     = [CheckEntry None,
        CheckExit (Some (first_trade (Some (Fin (11 / 5))) (Some (Fin (9 / 5))) None)),
        CheckExit (Some (first_trade (Some (Fin (18 / 5))) (Some (Fin (9 / 5))) None)),
        CheckEntry None]
   \<and> list_all call_ok
        (fst (run (Strategy (Fin (1 / 2)) (Fin (- 1))) session_chain session_underlying
                init_backtest))"
  using engine_call_discipline
          [of "Strategy (Fin (1 / 2)) (Fin (- 1))" session_chain session_underlying init_backtest]
  by (simp add: run_calls_eq session_loop)

section \<open>Skipped intervals\<close>

lemma validate_interval_False_iff:
  "validate_interval (name index) index chns = Inr False \<longleftrightarrow> validation_fails index chns"
  by (cases "price index")
     (auto simp: validate_interval_def validation_fails_def atm_strike_def Let_def
           split: option.split)

text \<open>
  C6: an interval fails validation exactly in the three listed ways, and the engine then
  skips it: the step makes no strategy call and returns the engine as it was, with its
  current position, that position's marks and the list of closed positions.
\<close>

theorem invalid_interval_skipped:
  "(validate_interval (name index) index chns = Inr False \<longleftrightarrow> validation_fails index chns)
   \<and> (validation_fails index chns \<longrightarrow> step strat chns s index = ([], Inr s))"
  using validate_interval_False_iff [of index chns] by (auto simp: step_def)

theorem invalid_interval_skipped_witness:
  "validation_fails (tick 34202 0) session_chain
   \<and> step (Strategy (Fin (1 / 2)) (Fin (- 1))) session_chain
          \<lparr>positions = [single_loss], current_position = Some (first_trade None None None)\<rparr>
          (tick 34202 0)
       = ([], Inr \<lparr>positions = [single_loss],
                   current_position = Some (first_trade None None None)\<rparr>)
   \<and> validation_fails (tick 34202 5950) session_chain
   \<and> step (Strategy (Fin (1 / 2)) (Fin (- 1))) session_chain
          \<lparr>positions = [single_loss], current_position = Some (first_trade None None None)\<rparr>
          (tick 34202 5950)
       = ([], Inr \<lparr>positions = [single_loss],
                   current_position = Some (first_trade None None None)\<rparr>)
   \<and> validation_fails (tick 34202 5901) (session_chain((34202, 5900) \<mapsto> quotes 3.9 4.0 0 0))
   \<and> step (Strategy (Fin (1 / 2)) (Fin (- 1)))
          (session_chain((34202, 5900) \<mapsto> quotes 3.9 4.0 0 0))
          \<lparr>positions = [single_loss], current_position = Some (first_trade None None None)\<rparr>
          (tick 34202 5901)
       = ([], Inr \<lparr>positions = [single_loss],
                   current_position = Some (first_trade None None None)\<rparr>)"
proof -
  have a: "validation_fails (tick 34202 0) session_chain"
    by (simp add: validation_fails_def tick_def)
  have b: "validation_fails (tick 34202 5950) session_chain"
    by (simp add: validation_fails_def atm_strike_def round_half_even_def session_defs)
  have c: "validation_fails (tick 34202 5901) (session_chain((34202, 5900) \<mapsto> quotes 3.9 4.0 0 0))"
    by (simp add: validation_fails_def atm_strike_def round_half_even_def session_defs)
  show ?thesis
    using a b c
      invalid_interval_skipped [of "tick 34202 0" session_chain]
      invalid_interval_skipped [of "tick 34202 5950" session_chain]
      invalid_interval_skipped [of "tick 34202 5901"
        "session_chain((34202, 5900) \<mapsto> quotes 3.9 4.0 0 0)"]
    by simp
qed

section \<open>Failed revaluation\<close>

lemma update_legs_missing:
  "opt \<in> set opts \<Longrightarrow> chns (t, strike opt) = None \<Longrightarrow> update_legs chns t opts = Inl KeyError"
proof (induction opts)
  case Nil
  then show ?case by simp
next
  case (Cons a opts)
  show ?case
  proof (cases "chns (t, strike a)")
    case None
    then show ?thesis by simp
  next
    case (Some row)
    with Cons.prems have "opt \<in> set opts" by auto
    with Cons.IH Cons.prems(2) have "update_legs chns t opts = Inl KeyError" by simp
    with Some show ?thesis by simp
  qed
qed

lemma update_mids_missing:
  "opt \<in> set (options p) \<Longrightarrow> chns (t, strike opt) = None \<Longrightarrow> update_mids chns t p = Inl KeyError"
  by (simp add: update_mids_def update_legs_missing)

lemma run_loop_append:
  "run_loop strat chns s (xs @ ys) =
     (case run_loop strat chns s xs of
        (cs, Inl e) \<Rightarrow> (cs, Inl e)
      | (cs, Inr s') \<Rightarrow> (case run_loop strat chns s' ys of (cs', r) \<Rightarrow> (cs @ cs', r)))"
proof (induction xs arbitrary: s)
  case Nil
  show ?case by (simp split: prod.split)
next
  case (Cons x xs)
  show ?case
    by (simp add: Cons.IH split: prod.split sum.split)
qed

lemma step_valuation_failure:
  assumes "current_position s = Some p"
    and "validate_interval (name index) index chns = Inr True"
    and "update_mids chns (name index) p = Inl e"
  shows "step strat chns s index = ([], Inl e)"
  using assms by (simp add: step_def exit_phase_def)

text \<open>
  C4: when the walk reaches a validated interval with a position open and the chain has no
  row for one of its legs at that timestamp, the run ends there with \<open>KeyError\<close>: the
  exception reaches the caller of \<open>run\<close> and no metrics are computed, whatever follows
  in the series.
\<close>

theorem valuation_failure_aborts:
  assumes "run_loop strat chns s before = (cs, Inr s1)"
    and "current_position s1 = Some p"
    and "validate_interval (name index) index chns = Inr True"
    and "opt \<in> set (options p)"
    and "chns (name index, strike opt) = None"
  shows "run strat chns (before @ index # after) s = (cs, Inl KeyError)"
proof -
  have "update_mids chns (name index) p = Inl KeyError"
    using assms(4,5) by (rule update_mids_missing)
  with assms(2,3) have "step strat chns s1 index = ([], Inl KeyError)"
    by (rule step_valuation_failure)
  with assms(1) have "run_loop strat chns s (before @ index # after) = (cs, Inl KeyError)"
    by (simp add: run_loop_append)
  then show ?thesis by (simp add: run_def)
qed

theorem valuation_failure_aborts_witness:
  "run (Strategy (Fin (1 / 2)) (Fin (- 1))) (session_chain((34202, 5905) := None))
       session_underlying init_backtest
     = ([CheckEntry None], Inl KeyError)"
proof -
  let ?gap = "session_chain((34202, 5905) := None)"
  let ?s1 = "\<lparr>positions = [], current_position = Some (first_trade None None None)\<rparr>"
  have 1: "run_loop (Strategy (Fin (1 / 2)) (Fin (- 1))) ?gap init_backtest [tick 34201 5900]
             = ([CheckEntry None], Inr ?s1)"
    by (simp add: engine_defs session_defs init_backtest_def)
  have 2: "current_position ?s1 = Some (first_trade None None None)"
    by simp
  have 3: "validate_interval (name (tick 34202 5901)) (tick 34202 5901) ?gap = Inr True"
    by (simp add: validate_interval_def round_half_even_def session_defs)
  have 4: "mk_leg 5905 ''C'' 1.9 1 2.0 None \<in> set (options (first_trade None None None))"
    by (simp add: first_trade_def)
  have 5: "?gap (name (tick 34202 5901), strike (mk_leg 5905 ''C'' 1.9 1 2.0 None)) = None"
    by (simp add: tick_def mk_leg_def)
  have "run (Strategy (Fin (1 / 2)) (Fin (- 1))) ?gap
          ([tick 34201 5900] @ tick 34202 5901 # [tick 34203 5902.5]) init_backtest
          = ([CheckEntry None], Inl KeyError)"
    by (rule valuation_failure_aborts [OF 1 2 3 4 5])
  then show ?thesis
    by (simp only: session_underlying_def append.simps)
qed

section \<open>The position left open at the end\<close>






section \<open>The default exit policy\<close>

lemma check_exit_finite:
  assumes "options p \<noteq> []" and "list_all finite_leg (options p)" and "net_premium_r p \<noteq> 0"
  shows "Strategy_check_exit (Fin a) (Fin b) p index
           = Inr (a \<le> pnl_r p / \<bar>net_premium_r p\<bar> \<or> pnl_r p / \<bar>net_premium_r p\<bar> \<le> b)"
  using assms by (simp add: Strategy_check_exit_def Let_def pnl_finite entry_sum_finite)

lemma validate_True_price:
  "validate_interval t index chns = Inr True \<Longrightarrow> \<exists>x. price index = Fin x \<and> 0 < x"
  by (cases "price index") (auto simp: validate_interval_def split: if_splits)

lemma default_entry_total:
  assumes "price index = Fin x"
  shows "Strategy_check_entry index chns = Inr None
         \<or> (\<exists>pos opt rest. Strategy_check_entry index chns = Inr (Some pos)
               \<and> options pos = opt # rest \<and> exit_mid opt = None)"
  using assms by (auto simp: Strategy_check_entry_def Let_def split: option.split)

lemma default_entry_phase:
  assumes "validate_interval (name index) index chns = Inr True" and "current_position s = None"
  shows "\<exists>s'. entry_phase (Strategy pp lp) chns s index = ([CheckEntry None], Inr s')
              \<and> positions s' = positions s"
proof -
  from assms(1) obtain x where x: "price index = Fin x"
    using validate_True_price by blast
  from default_entry_total [OF x, of chns] show ?thesis
  proof
    assume "Strategy_check_entry index chns = Inr None"
    with assms(2) show ?thesis by (simp add: entry_phase_def Strategy_def)
  next
    assume "\<exists>pos opt rest. Strategy_check_entry index chns = Inr (Some pos)
               \<and> options pos = opt # rest \<and> exit_mid opt = None"
    then obtain pos opt rest where pos: "Strategy_check_entry index chns = Inr (Some pos)"
      and legs: "options pos = opt # rest" "exit_mid opt = None"
      by blast
    from legs have "position_str pos = Inr ()"
      by (simp add: position_str_def current_price_def)
    with assms(2) pos show ?thesis by (simp add: entry_phase_def Strategy_def)
  qed
qed

lemma default_step_exit:
  assumes "current_position s = Some p0"
    and "validate_interval (name index) index chns = Inr True"
    and "update_mids chns (name index) p0 = Inr p1"
    and "Strategy_check_exit pp lp p1 index = Inr True"
  shows "fst (step (Strategy pp lp) chns s index) = [CheckExit (Some p1), CheckEntry None]
    \<and> (case snd (step (Strategy pp lp) chns s index) of
          Inl e \<Rightarrow> False
        | Inr s' \<Rightarrow> positions s' = positions s @ [p1\<lparr>exit_time := Some (name index)\<rparr>])"
proof -
  let ?s1 = "s\<lparr>current_position := Some p1\<rparr>
              \<lparr>positions := positions s @ [p1\<lparr>exit_time := Some (name index)\<rparr>],
               current_position := None\<rparr>"
  have ex: "exit_phase (Strategy pp lp) chns s (name index) index
              = ([CheckExit (Some p1)], Inr ?s1)"
    using assms by (simp add: exit_phase_def Strategy_def)
  have "current_position ?s1 = None" by simp
  with assms(2) obtain s'
    where en: "entry_phase (Strategy pp lp) chns ?s1 index = ([CheckEntry None], Inr s')"
      and keep: "positions s' = positions ?s1"
    using default_entry_phase [of index chns ?s1 pp lp] by blast
  from assms(2) ex en
  have "step (Strategy pp lp) chns s index = ([CheckExit (Some p1), CheckEntry None], Inr s')"
    by (simp add: step_def)
  with keep show ?thesis by simp
qed

lemma default_step_stay:
  assumes "current_position s = Some p0"
    and "validate_interval (name index) index chns = Inr True"
    and "update_mids chns (name index) p0 = Inr p1"
    and "Strategy_check_exit pp lp p1 index = Inr False"
  shows "step (Strategy pp lp) chns s index
           = ([CheckExit (Some p1)], Inr (s\<lparr>current_position := Some p1\<rparr>))"
  using assms by (simp add: step_def exit_phase_def entry_phase_def Strategy_def)

text \<open>
  C3, as the code has it: the denominator of the ratio is the absolute value of the net
  entry premium, \<open>|\<Sum> entry_price * quantity|\<close> over the legs. The default
  \<open>check_exit\<close> of a position with legs returns true exactly when \<open>pnl\<close> divided by that
  value is at least \<open>profit_pct\<close> or at most \<open>loss_pct\<close>; on finite prices with a net
  premium other than zero this is the comparison of real numbers. In the engine, at a
  validated interval where the open position has been revalued, the position is closed
  with that interval's timestamp when the test holds and stays open when it does not: a
  position whose ratio first reaches the target at interval T closes at T.
\<close>

theorem default_exit_policy:
  "(options p \<noteq> [] \<longrightarrow>
      Strategy_check_exit pp lp p index
        = Inr (fle pp (fdiv (pnl p) (fabs (position_entry_price p)))
               \<or> fle (fdiv (pnl p) (fabs (position_entry_price p))) lp))
   \<and> (options p \<noteq> [] \<and> list_all finite_leg (options p) \<and> net_premium_r p \<noteq> 0 \<longrightarrow>
      Strategy_check_exit (Fin a) (Fin b) p index
        = Inr (a \<le> pnl_r p / \<bar>net_premium_r p\<bar> \<or> pnl_r p / \<bar>net_premium_r p\<bar> \<le> b))
   \<and> (current_position s = Some held \<and> validate_interval (name index) index chns = Inr True
        \<and> update_mids chns (name index) held = Inr marked \<longrightarrow>
      (Strategy_check_exit pp lp marked index = Inr True \<longrightarrow>
         fst (step (Strategy pp lp) chns s index) = [CheckExit (Some marked), CheckEntry None]
         \<and> (case snd (step (Strategy pp lp) chns s index) of
               Inl e \<Rightarrow> False
             | Inr s' \<Rightarrow> positions s' = positions s @ [marked\<lparr>exit_time := Some (name index)\<rparr>]))
      \<and> (Strategy_check_exit pp lp marked index = Inr False \<longrightarrow>
         step (Strategy pp lp) chns s index
           = ([CheckExit (Some marked)], Inr (s\<lparr>current_position := Some marked\<rparr>))))"
proof (intro conjI impI)
  assume "options p \<noteq> []"
  then show "Strategy_check_exit pp lp p index
        = Inr (fle pp (fdiv (pnl p) (fabs (position_entry_price p)))
               \<or> fle (fdiv (pnl p) (fabs (position_entry_price p))) lp)"
    by (simp add: Strategy_check_exit_def position_entry_price_def Let_def)
next
  assume "options p \<noteq> [] \<and> list_all finite_leg (options p) \<and> net_premium_r p \<noteq> 0"
  then show "Strategy_check_exit (Fin a) (Fin b) p index
        = Inr (a \<le> pnl_r p / \<bar>net_premium_r p\<bar> \<or> pnl_r p / \<bar>net_premium_r p\<bar> \<le> b)"
    by (simp add: check_exit_finite)
next
  assume pre: "current_position s = Some held \<and> validate_interval (name index) index chns = Inr True
        \<and> update_mids chns (name index) held = Inr marked"
    and leave: "Strategy_check_exit pp lp marked index = Inr True"
  from pre leave
  show "fst (step (Strategy pp lp) chns s index) = [CheckExit (Some marked), CheckEntry None]"
    using default_step_exit [of s held index chns marked pp lp] by simp
  from pre leave
  show "case snd (step (Strategy pp lp) chns s index) of
               Inl e \<Rightarrow> False
             | Inr s' \<Rightarrow> positions s' = positions s @ [marked\<lparr>exit_time := Some (name index)\<rparr>]"
    using default_step_exit [of s held index chns marked pp lp] by simp
next
  assume "current_position s = Some held \<and> validate_interval (name index) index chns = Inr True
        \<and> update_mids chns (name index) held = Inr marked"
    and "Strategy_check_exit pp lp marked index = Inr False"
  then show "step (Strategy pp lp) chns s index
           = ([CheckExit (Some marked)], Inr (s\<lparr>current_position := Some marked\<rparr>))"
    using default_step_stay [of s held index chns marked pp lp] by simp
qed

lemma first_trade_values:
  "options (first_trade (Some (Fin x)) (Some (Fin y)) closed_at) \<noteq> []
   \<and> list_all finite_leg (options (first_trade (Some (Fin x)) (Some (Fin y)) closed_at))
   \<and> net_premium_r (first_trade (Some (Fin x)) (Some (Fin y)) closed_at) = 18 / 5"
  by (simp add: first_trade_def mk_leg_def finite_leg_def net_premium_r_def)

lemma first_trade_pnl:
  "pnl_r (first_trade (Some (Fin (11 / 5))) (Some (Fin (9 / 5))) None) = 2 / 5
   \<and> pnl_r (first_trade (Some (Fin (18 / 5))) (Some (Fin (9 / 5))) None) = 9 / 5"
  by (simp add: first_trade_def mk_leg_def pnl_r_def leg_pnl_r_def)

theorem default_exit_policy_witness:
  "Strategy_check_exit (Fin (1 / 2)) (Fin (- 1))
      (first_trade (Some (Fin (11 / 5))) (Some (Fin (9 / 5))) None) (tick 34202 5901) = Inr False
   \<and> step (Strategy (Fin (1 / 2)) (Fin (- 1))) session_chain
        \<lparr>positions = [], current_position = Some (first_trade None None None)\<rparr>
        (tick 34202 5901)
      = ([CheckExit (Some (first_trade (Some (Fin (11 / 5))) (Some (Fin (9 / 5))) None))],
         Inr \<lparr>positions = [],
              current_position = Some (first_trade (Some (Fin (11 / 5))) (Some (Fin (9 / 5))) None)\<rparr>)
   \<and> pnl_r (first_trade (Some (Fin (18 / 5))) (Some (Fin (9 / 5))) None)
        / \<bar>net_premium_r (first_trade (Some (Fin (18 / 5))) (Some (Fin (9 / 5))) None)\<bar> = 1 / 2
   \<and> Strategy_check_exit (Fin (1 / 2)) (Fin (- 1))
        (first_trade (Some (Fin (18 / 5))) (Some (Fin (9 / 5))) None) (tick 34203 (11805 / 2))
      = Inr True
   \<and> (case snd (step (Strategy (Fin (1 / 2)) (Fin (- 1))) session_chain
                  \<lparr>positions = [],
                    current_position =
                      Some (first_trade (Some (Fin (11 / 5))) (Some (Fin (9 / 5))) None)\<rparr>
                  (tick 34203 (11805 / 2))) of
         Inl e \<Rightarrow> False
       | Inr s' \<Rightarrow>
           positions s' = [first_trade (Some (Fin (18 / 5))) (Some (Fin (9 / 5))) (Some 34203)])"
proof -
  let ?S = "Strategy (Fin (1 / 2)) (Fin (- 1))"
  let ?p0 = "first_trade None None None"
  let ?p1 = "first_trade (Some (Fin (11 / 5))) (Some (Fin (9 / 5))) None"
  let ?p2 = "first_trade (Some (Fin (18 / 5))) (Some (Fin (9 / 5))) None"
  let ?s0 = "\<lparr>positions = [], current_position = Some ?p0\<rparr>"
  let ?s1 = "\<lparr>positions = [], current_position = Some ?p1\<rparr>"
  let ?i2 = "tick 34202 5901"
  let ?i3 = "tick 34203 (11805 / 2)"
  have n2: "name ?i2 = 34202" and n3: "name ?i3 = 34203"
    by (simp_all add: tick_def)
  have fin1: "options ?p1 \<noteq> [] \<and> list_all finite_leg (options ?p1) \<and> net_premium_r ?p1 \<noteq> 0"
    and fin2: "options ?p2 \<noteq> [] \<and> list_all finite_leg (options ?p2) \<and> net_premium_r ?p2 \<noteq> 0"
    by (simp_all add: first_trade_values)
  have "Strategy_check_exit (Fin (1 / 2)) (Fin (- 1)) ?p1 ?i2
          = Inr (1 / 2 \<le> pnl_r ?p1 / \<bar>net_premium_r ?p1\<bar> \<or> pnl_r ?p1 / \<bar>net_premium_r ?p1\<bar> \<le> - 1)"
    using default_exit_policy [where p = ?p1 and a = "1 / 2" and b = "- 1" and index = ?i2] fin1
    by blast
  then have stay: "Strategy_check_exit (Fin (1 / 2)) (Fin (- 1)) ?p1 ?i2 = Inr False"
    by (simp add: first_trade_values first_trade_pnl)
  have "Strategy_check_exit (Fin (1 / 2)) (Fin (- 1)) ?p2 ?i3
          = Inr (1 / 2 \<le> pnl_r ?p2 / \<bar>net_premium_r ?p2\<bar> \<or> pnl_r ?p2 / \<bar>net_premium_r ?p2\<bar> \<le> - 1)"
    using default_exit_policy [where p = ?p2 and a = "1 / 2" and b = "- 1" and index = ?i3] fin2
    by blast
  then have leave: "Strategy_check_exit (Fin (1 / 2)) (Fin (- 1)) ?p2 ?i3 = Inr True"
    by (simp add: first_trade_values first_trade_pnl)
  have ratio: "pnl_r ?p2 / \<bar>net_premium_r ?p2\<bar> = 1 / 2"
    by (simp add: first_trade_values first_trade_pnl)
  have pre2: "current_position ?s0 = Some ?p0
      \<and> validate_interval (name ?i2) ?i2 session_chain = Inr True
      \<and> update_mids session_chain (name ?i2) ?p0 = Inr ?p1"
    by (simp add: n2 session_valid session_revalue_first)
  have pre3: "current_position ?s1 = Some ?p1
      \<and> validate_interval (name ?i3) ?i3 session_chain = Inr True
      \<and> update_mids session_chain (name ?i3) ?p1 = Inr ?p2"
    by (simp add: n3 session_valid session_revalue_first)
  have "step ?S session_chain ?s0 ?i2 = ([CheckExit (Some ?p1)], Inr (?s0\<lparr>current_position := Some ?p1\<rparr>))"
    using default_exit_policy
            [where pp = "Fin (1 / 2)" and lp = "Fin (- 1)" and index = ?i2 and s = ?s0
               and held = ?p0 and chns = session_chain and marked = ?p1]
      pre2 stay
    by blast
  then have step2: "step ?S session_chain ?s0 ?i2 = ([CheckExit (Some ?p1)], Inr ?s1)"
    by simp
  have closed: "?p2\<lparr>exit_time := Some 34203\<rparr>
      = first_trade (Some (Fin (18 / 5))) (Some (Fin (9 / 5))) (Some 34203)"
    by (simp add: first_trade_def)
  have "case snd (step ?S session_chain ?s1 ?i3) of
         Inl e \<Rightarrow> False
       | Inr s' \<Rightarrow> positions s' = positions ?s1 @ [?p2\<lparr>exit_time := Some (name ?i3)\<rparr>]"
    using default_exit_policy
            [where pp = "Fin (1 / 2)" and lp = "Fin (- 1)" and index = ?i3 and s = ?s1
               and held = ?p1 and chns = session_chain and marked = ?p2]
      pre3 leave
    by blast
  then have step3: "case snd (step ?S session_chain ?s1 ?i3) of
         Inl e \<Rightarrow> False
       | Inr s' \<Rightarrow>
           positions s' = [first_trade (Some (Fin (18 / 5))) (Some (Fin (9 / 5))) (Some 34203)]"
    by (simp add: n3 closed split: sum.splits)
  from stay step2 ratio leave step3 show ?thesis by blast
qed

text \<open>
  C3 as stated fails on a put spread, one put sold at 2 and one bought at 1, marked at
  1.5 and 1. Its profit is 0.5. The code divides by \<open>|-2 + 1| = 1\<close> and, with
  \<open>profit_pct = 0.5\<close>, closes the position; with the notional of the claim,
  \<open>|-2| + |1| = 3\<close>, the ratio is 1/6 and neither bound is reached.
\<close>

theorem default_exit_policy_counterexample:
  "Strategy_check_exit (Fin (1 / 2)) (Fin (- 1)) (put_spread None) (tick 34202 5901) = Inr True
   \<and> fdiv (pnl (put_spread None)) (entry_notional_spec (put_spread None)) = Fin (1 / 6)
   \<and> \<not> (fle (Fin (1 / 2)) (fdiv (pnl (put_spread None)) (entry_notional_spec (put_spread None)))
        \<or> fle (fdiv (pnl (put_spread None)) (entry_notional_spec (put_spread None))) (Fin (- 1)))"
  by (simp add: Strategy_check_exit_def put_spread_def mk_leg_def pnl_def opt_pnl_def
        entry_notional_spec_def fsum_def fsub_def)

section \<open>Returns per trade and in total\<close>

lemma trade_returns_finite:
  assumes "\<forall>p\<in>set ps. options p \<noteq> [] \<and> list_all finite_leg (options p) \<and> net_premium_r p \<noteq> 0"
  shows "trade_returns ps = Inr (map (\<lambda>p. Fin (pnl_r p / \<bar>net_premium_r p\<bar>)) ps)"
  using assms
proof (induction ps)
  case Nil
  show ?case by simp
next
  case (Cons p ps)
  then have "trade_returns ps = Inr (map (\<lambda>p. Fin (pnl_r p / \<bar>net_premium_r p\<bar>)) ps)"
    by simp
  moreover from Cons.prems
  have "options p \<noteq> []" "list_all finite_leg (options p)" "net_premium_r p \<noteq> 0"
    by simp_all
  ultimately show ?case
    by (simp add: pnl_finite position_entry_price_finite)
qed

lemma total_pnl_finite:
  assumes "\<forall>p\<in>set ps. list_all finite_leg (options p)"
  shows "fsum (map pnl ps) = Fin (\<Sum>p\<leftarrow>ps. pnl_r p)"
proof -
  have "map pnl ps = map Fin (map pnl_r ps)"
    using assms by (simp add: pnl_finite)
  then show ?thesis by (simp only: fsum_Fin)
qed

lemma total_premium_finite:
  assumes "\<forall>p\<in>set ps. list_all finite_leg (options p)"
  shows "fsum (map (\<lambda>p. fabs (position_entry_price p)) ps) = Fin (\<Sum>p\<leftarrow>ps. \<bar>net_premium_r p\<bar>)"
proof -
  have "map (\<lambda>p. fabs (position_entry_price p)) ps = map Fin (map (\<lambda>p. \<bar>net_premium_r p\<bar>) ps)"
    using assms by (simp add: position_entry_price_finite)
  then show ?thesis by (simp only: fsum_Fin)
qed

lemma premium_sum_pos:
  assumes "ps \<noteq> []" and "\<forall>p\<in>set ps. net_premium_r p \<noteq> 0"
  shows "0 < (\<Sum>p\<leftarrow>ps. \<bar>net_premium_r p\<bar>)"
  using assms
proof (induction ps)
  case Nil
  then show ?case by simp
next
  case (Cons p ps)
  have "0 \<le> (\<Sum>p\<leftarrow>ps. \<bar>net_premium_r p\<bar>)"
    by (rule sum_list_nonneg) auto
  moreover from Cons.prems have "0 < \<bar>net_premium_r p\<bar>" by simp
  ultimately show ?case by simp
qed

lemma total_return_finite:
  assumes "ps \<noteq> []"
    and "\<forall>p\<in>set ps. list_all finite_leg (options p) \<and> net_premium_r p \<noteq> 0"
  shows "total_return ps = Fin ((\<Sum>p\<leftarrow>ps. pnl_r p) / (\<Sum>p\<leftarrow>ps. \<bar>net_premium_r p\<bar>))"
proof -
  have "0 < (\<Sum>p\<leftarrow>ps. \<bar>net_premium_r p\<bar>)"
    using assms by (simp add: premium_sum_pos)
  then show ?thesis
    using assms(2) by (simp add: total_return_def total_pnl_finite total_premium_finite)
qed

lemma trade_returns_legs:
  assumes "\<forall>p\<in>set ps. options p \<noteq> []"
  shows "trade_returns ps = Inr (map (\<lambda>p. fdiv (pnl p) (fabs (position_entry_price p))) ps)"
  using assms by (induction ps) simp_all

lemma trade_returns_no_legs:
  "p \<in> set ps \<Longrightarrow> options p = [] \<Longrightarrow> trade_returns ps = Inl ZeroDivisionError"
  by (induction ps) (auto split: sum.split)

text \<open>
  C2, as the code has it: the entry notional of a position is the absolute value of its
  net entry premium, \<open>|\<Sum> entry_price * quantity|\<close> over the legs, which is
  \<open>abs(p.entry_price())\<close>. For a non-empty list of closed positions that have legs, the
  return of each trade is its profit divided by that value, the total return is the total
  profit divided by the sum of those values, and the reported \<open>return\<close> is the total
  return times 100. On finite prices with net premiums other than zero these are the
  quotients of real numbers.
\<close>

theorem trade_returns_formula:
  "(ps \<noteq> [] \<and> (\<forall>p\<in>set ps. options p \<noteq> []) \<longrightarrow>
      trade_returns ps = Inr (map (\<lambda>p. fdiv (pnl p) (fabs (position_entry_price p))) ps)
      \<and> total_return ps
          = fdiv (fsum (map pnl ps)) (fsum (map (\<lambda>p. fabs (position_entry_price p)) ps))
      \<and> (case calculate_metrics ps of
            Inl e \<Rightarrow> False
          | Inr m \<Rightarrow>
              total_pnl m = fsum (map pnl ps)
              \<and> return_pct m = fmul (total_return ps) (Fin 100)))
   \<and> (ps \<noteq> []
       \<and> (\<forall>p\<in>set ps. options p \<noteq> [] \<and> list_all finite_leg (options p) \<and> net_premium_r p \<noteq> 0)
       \<longrightarrow>
      trade_returns ps = Inr (map (\<lambda>p. Fin (pnl_r p / \<bar>net_premium_r p\<bar>)) ps)
      \<and> total_return ps = Fin ((\<Sum>p\<leftarrow>ps. pnl_r p) / (\<Sum>p\<leftarrow>ps. \<bar>net_premium_r p\<bar>))
      \<and> (case calculate_metrics ps of
            Inl e \<Rightarrow> False
          | Inr m \<Rightarrow>
              total_pnl m = Fin (\<Sum>p\<leftarrow>ps. pnl_r p)
              \<and> return_pct m
                  = Fin ((\<Sum>p\<leftarrow>ps. pnl_r p) / (\<Sum>p\<leftarrow>ps. \<bar>net_premium_r p\<bar>) * 100)))"
proof (intro conjI impI)
  assume legs: "ps \<noteq> [] \<and> (\<forall>p\<in>set ps. options p \<noteq> [])"
  then show r: "trade_returns ps = Inr (map (\<lambda>p. fdiv (pnl p) (fabs (position_entry_price p))) ps)"
    by (simp add: trade_returns_legs)
  show "total_return ps
          = fdiv (fsum (map pnl ps)) (fsum (map (\<lambda>p. fabs (position_entry_price p)) ps))"
    by (simp add: total_return_def)
  from legs r show "case calculate_metrics ps of
            Inl e \<Rightarrow> False
          | Inr m \<Rightarrow>
              total_pnl m = fsum (map pnl ps)
              \<and> return_pct m = fmul (total_return ps) (Fin 100)"
    by (simp add: calculate_metrics_def Let_def)
next
  assume fin: "ps \<noteq> []
       \<and> (\<forall>p\<in>set ps. options p \<noteq> [] \<and> list_all finite_leg (options p) \<and> net_premium_r p \<noteq> 0)"
  then show r: "trade_returns ps = Inr (map (\<lambda>p. Fin (pnl_r p / \<bar>net_premium_r p\<bar>)) ps)"
    by (simp add: trade_returns_finite)
  from fin show t: "total_return ps = Fin ((\<Sum>p\<leftarrow>ps. pnl_r p) / (\<Sum>p\<leftarrow>ps. \<bar>net_premium_r p\<bar>))"
    by (simp add: total_return_finite)
  from fin have p: "fsum (map pnl ps) = Fin (\<Sum>p\<leftarrow>ps. pnl_r p)"
    by (simp add: total_pnl_finite)
  from fin r t p show "case calculate_metrics ps of
            Inl e \<Rightarrow> False
          | Inr m \<Rightarrow>
              total_pnl m = Fin (\<Sum>p\<leftarrow>ps. pnl_r p)
              \<and> return_pct m
                  = Fin ((\<Sum>p\<leftarrow>ps. pnl_r p) / (\<Sum>p\<leftarrow>ps. \<bar>net_premium_r p\<bar>) * 100)"
    by (simp add: calculate_metrics_def Let_def)
qed

lemma example_values:
  "options (put_spread closed_at) \<noteq> [] \<and> list_all finite_leg (options (put_spread closed_at))
   \<and> net_premium_r (put_spread closed_at) = - 1 \<and> pnl_r (put_spread closed_at) = 1 / 2
   \<and> options single_loss \<noteq> [] \<and> list_all finite_leg (options single_loss)
   \<and> net_premium_r single_loss = 2 \<and> pnl_r single_loss = - 1"
  by (simp add: put_spread_def single_loss_def mk_leg_def finite_leg_def net_premium_r_def
        pnl_r_def leg_pnl_r_def)

theorem trade_returns_formula_witness:
  "trade_returns [put_spread (Some 34203), single_loss] = Inr [Fin (1 / 2), Fin (- 1 / 2)]
   \<and> total_return [put_spread (Some 34203), single_loss] = Fin (- 1 / 6)
   \<and> (case calculate_metrics [put_spread (Some 34203), single_loss] of
         Inl e \<Rightarrow> False
       | Inr m \<Rightarrow> total_pnl m = Fin (- 1 / 2) \<and> return_pct m = Fin (- 50 / 3))"
proof -
  have 1: "[put_spread (Some 34203), single_loss] \<noteq> []"
    by simp
  have 2: "\<forall>p\<in>set [put_spread (Some 34203), single_loss].
             options p \<noteq> [] \<and> list_all finite_leg (options p) \<and> net_premium_r p \<noteq> 0"
    using example_values [of "Some 34203"] by simp
  have "trade_returns [put_spread (Some 34203), single_loss]
          = Inr (map (\<lambda>p. Fin (pnl_r p / \<bar>net_premium_r p\<bar>)) [put_spread (Some 34203), single_loss])
      \<and> total_return [put_spread (Some 34203), single_loss]
          = Fin ((\<Sum>p\<leftarrow>[put_spread (Some 34203), single_loss]. pnl_r p)
                 / (\<Sum>p\<leftarrow>[put_spread (Some 34203), single_loss]. \<bar>net_premium_r p\<bar>))
      \<and> (case calculate_metrics [put_spread (Some 34203), single_loss] of
            Inl e \<Rightarrow> False
          | Inr m \<Rightarrow>
              total_pnl m = Fin (\<Sum>p\<leftarrow>[put_spread (Some 34203), single_loss]. pnl_r p)
              \<and> return_pct m
                  = Fin ((\<Sum>p\<leftarrow>[put_spread (Some 34203), single_loss]. pnl_r p)
                         / (\<Sum>p\<leftarrow>[put_spread (Some 34203), single_loss]. \<bar>net_premium_r p\<bar>)
                         * 100))"
    using trade_returns_formula [of "[put_spread (Some 34203), single_loss]"] 1 2 by blast
  then show ?thesis
    by (simp add: example_values split: sum.splits)
qed

text \<open>
  C2 as stated fails on the put spread: its profit is 0.5, the code's return is
  \<open>0.5 / |-2 + 1| = 0.5\<close>, the claim's is \<open>0.5 / (|-2| + |1|) = 1/6\<close>, and likewise for
  the total return of the list that holds only this position.
\<close>

theorem trade_returns_formula_counterexample:
  "trade_returns [put_spread (Some 34203)] = Inr [Fin (1 / 2)]
   \<and> fdiv (pnl (put_spread (Some 34203))) (entry_notional_spec (put_spread (Some 34203)))
       = Fin (1 / 6)
   \<and> total_return [put_spread (Some 34203)] = Fin (1 / 2)
   \<and> fdiv (fsum (map pnl [put_spread (Some 34203)]))
           (fsum (map entry_notional_spec [put_spread (Some 34203)])) = Fin (1 / 6)"
  by (simp add: total_return_def put_spread_def mk_leg_def pnl_def opt_pnl_def
        position_entry_price_def entry_notional_spec_def fsum_def fsub_def)

section \<open>The Sortino ratio of a single losing trade\<close>

lemma single_loss_returns: "trade_returns [single_loss] = Inr [Fin (- 1 / 2)]"
  by (simp add: single_loss_def mk_leg_def pnl_def opt_pnl_def position_entry_price_def
        fsum_def fsub_def)

lemma downside_std_single: "downside_std [Fin (- 1 / 2)] = NaN"
  by (simp add: downside_std_def downside_returns_def series_std_def)

text \<open>
  C8 on the list that holds one losing position, a call bought at 2 and closed at 1: the
  only return, -0.5, is negative, the guard \<open>len(downside_returns) > 0\<close> lets the standard
  deviation of that single value through, which is NaN, and the Sortino ratio is NaN. The
  claim gives a deviation of 0 and a ratio equal to the total return.
\<close>

theorem sortino_single_loss:
  "trade_returns [single_loss] = Inr [Fin (- 1 / 2)]
   \<and> downside_returns [Fin (- 1 / 2)] = [Fin (- 1 / 2)]
   \<and> downside_std [Fin (- 1 / 2)] = NaN
   \<and> total_return [single_loss] = Fin (- 1 / 2)
   \<and> (case calculate_metrics [single_loss] of Inl e \<Rightarrow> False | Inr m \<Rightarrow> sortino m = NaN)"
proof -
  have "sortino_ratio (total_return [single_loss]) (downside_std [Fin (- 1 / 2)]) = NaN"
    by (simp only: downside_std_single) (simp add: sortino_ratio_def fdiv_NaN_right)
  then have "case calculate_metrics [single_loss] of Inl e \<Rightarrow> False | Inr m \<Rightarrow> sortino m = NaN"
    by (simp add: calculate_metrics_def single_loss_returns Let_def del: trade_returns.simps)
  moreover have "downside_returns [Fin (- 1 / 2)] = [Fin (- 1 / 2)]"
    by (simp add: downside_returns_def)
  moreover have "total_return [single_loss] = Fin (- 1 / 2)"
    by (simp add: total_return_def single_loss_def mk_leg_def pnl_def opt_pnl_def
          position_entry_price_def fsum_def fsub_def)
  ultimately show ?thesis
    using single_loss_returns downside_std_single by blast
qed

section \<open>No closed position\<close>

text \<open>
  C9: for the empty list of closed positions the metrics are the fixed record of zeros;
  nothing raises and no field is NaN.
\<close>

theorem calculate_metrics_empty:
  "calculate_metrics [] =
     Inr \<lparr>total_pnl = Fin 0, win_rate = Fin 0, num_positions = 0, mar = Fin 0,
          sortino = Fin 0, return_pct = Fin 0, profit_factor = Fin 0\<rparr>
   \<and> (case calculate_metrics [] of
        Inl e \<Rightarrow> False
      | Inr m \<Rightarrow> NaN \<notin> {total_pnl m, win_rate m, mar m, sortino m, return_pct m, profit_factor m})"
  by (simp add: calculate_metrics_def)

end
